theory Spec2Isabelle
  imports Complex_Main
begin


section \<open>JavaScript values used by the handlers\<close>

text \<open>
  A property read in the source can give \<open>undefined\<close>, \<open>null\<close> or a value; the optional
  chaining \<open>x?.f\<close>, the coalescing \<open>x ?? y\<close> and the test \<open>x == null\<close> treat the first
  two alike, \<open>String\<close> does not.
\<close>

datatype 'a js = Undefined | Null | Val 'a

text \<open>
  Identifiers are typed \<open>string\<close> upstream, but the handlers pass them through \<open>String\<close>
  because numeric identifiers occur. A numeric identifier is a safe integer, between
  \<open>-(2^53 - 1)\<close> and \<open>2^53 - 1\<close>: these are the Numbers that are integers exactly and that
  \<open>String\<close> prints as their decimal digits. Larger Numbers (printed rounded, and in
  exponent form from \<open>10^21\<close>) and fractions are not identifiers of this model.
\<close>

typedef safe_integer = "{i :: int. \<bar>i\<bar> < 2 ^ 53}"
  morphisms int_of_safe safe_of_int
  by (intro exI [of _ 0]) simp

datatype prim = Str string | Num safe_integer

datatype js_error = TypeError

text \<open>What a handler hands back when it returns: a boolean, or \<open>undefined\<close>.\<close>

datatype js_result = JBool bool | JUndefined

type_synonym handler_result = "js_error + js_result"

definition nullish :: "'a js \<Rightarrow> bool" where
  \<comment> \<open>\<open>x == null\<close>\<close>
  "nullish x = (case x of Val _ \<Rightarrow> False | _ \<Rightarrow> True)"

definition digit_char :: "nat \<Rightarrow> char" where
  "digit_char d = ''0123456789'' ! d"

function string_of_nat :: "nat \<Rightarrow> string" where
  "string_of_nat n =
     (if n < 10 then [digit_char n] else string_of_nat (n div 10) @ [digit_char (n mod 10)])"
  by pat_completeness auto
termination
  by (relation "measure (\<lambda>n. n)") auto

declare string_of_nat.simps [simp del]

definition js_String :: "prim js \<Rightarrow> string" where
  \<comment> \<open>\<open>String(x)\<close>; on a safe integer the sign and the decimal digits\<close>
  "js_String x =
     (case x of
        Undefined \<Rightarrow> ''undefined''
      | Null \<Rightarrow> ''null''
      | Val (Str s) \<Rightarrow> s
      | Val (Num n) \<Rightarrow>
          (if int_of_safe n < 0 then CHR ''-'' # string_of_nat (nat (- int_of_safe n))
           else string_of_nat (nat (int_of_safe n))))"

text \<open>
  Reading a decimal numeral: the value of a string of digits, and of an optional minus
  sign followed by digits. These two are not part of the source; they say what the
  digits printed by \<open>String\<close> denote.
\<close>

definition digit_value :: "char \<Rightarrow> nat" where
  \<comment> \<open>the place of the character among the digits\<close>
  "digit_value c = length (takeWhile (\<lambda>d. d \<noteq> c) ''0123456789'')"

definition decimal_value :: "string \<Rightarrow> nat" where
  "decimal_value s = foldl (\<lambda>a c. 10 * a + digit_value c) 0 s"

definition decimal_int :: "string \<Rightarrow> int" where
  "decimal_int s =
     (case s of
        [] \<Rightarrow> 0
      | c # r \<Rightarrow> if c = CHR ''-'' then - int (decimal_value r) else int (decimal_value s))"

definition js_Boolean :: "js_result \<Rightarrow> bool" where
  \<comment> \<open>\<open>Boolean(x)\<close> on a boolean or \<open>undefined\<close>\<close>
  "js_Boolean r = (case r of JBool b \<Rightarrow> b | JUndefined \<Rightarrow> False)"

definition truthy_obj :: "'a js \<Rightarrow> bool" where
  \<comment> \<open>\<open>Boolean(x)\<close> on an object, \<open>null\<close> or \<open>undefined\<close>: every object is truthy\<close>
  "truthy_obj x = (\<not> nullish x)"

definition opt_find :: "('a \<Rightarrow> bool) \<Rightarrow> 'a list js \<Rightarrow> 'a js" where
  \<comment> \<open>\<open>xs?.find(p)\<close>\<close>
  "opt_find p xs =
     (case xs of
        Val l \<Rightarrow> (case find p l of Some x \<Rightarrow> Val x | None \<Rightarrow> Undefined)
      | _ \<Rightarrow> Undefined)"

definition opt_some :: "('a \<Rightarrow> bool) \<Rightarrow> 'a list js \<Rightarrow> js_result" where
  \<comment> \<open>\<open>xs?.some(p)\<close>\<close>
  "opt_some p xs = (case xs of Val l \<Rightarrow> JBool (list_ex p l) | _ \<Rightarrow> JUndefined)"

definition opt_filter :: "('a \<Rightarrow> bool) \<Rightarrow> 'a list js \<Rightarrow> 'a list js" where
  \<comment> \<open>\<open>xs?.filter(p)\<close>\<close>
  "opt_filter p xs = (case xs of Val l \<Rightarrow> Val (filter p l) | _ \<Rightarrow> Undefined)"

definition opt_length :: "'a list js \<Rightarrow> rat js" where
  \<comment> \<open>\<open>xs?.length\<close>\<close>
  "opt_length xs = (case xs of Val l \<Rightarrow> Val (of_nat (length l)) | _ \<Rightarrow> Undefined)"

definition index0 :: "'a list js \<Rightarrow> js_error + 'a js" where
  \<comment> \<open>\<open>xs[0]\<close>: reading a property of \<open>undefined\<close> or \<open>null\<close> throws, reading past the end
      of an array gives \<open>undefined\<close>\<close>
  "index0 xs =
     (case xs of
        Val [] \<Rightarrow> Inr Undefined
      | Val (x # _) \<Rightarrow> Inr (Val x)
      | _ \<Rightarrow> Inl TypeError)"

definition to_number :: "rat js \<Rightarrow> rat option" where
  \<comment> \<open>\<open>ToNumber\<close>; \<open>None\<close> is NaN\<close>
  "to_number x = (case x of Undefined \<Rightarrow> None | Null \<Rightarrow> Some 0 | Val r \<Rightarrow> Some r)"

definition js_gt :: "rat js \<Rightarrow> rat js \<Rightarrow> bool" where
  \<comment> \<open>\<open>a > b\<close> on numbers: false as soon as one side is NaN\<close>
  "js_gt a b =
     (case to_number a of
        None \<Rightarrow> False
      | Some x \<Rightarrow> (case to_number b of None \<Rightarrow> False | Some y \<Rightarrow> y < x))"


section \<open>The data of \<open>ConditionLayoutProduct.tsx\<close>\<close>

text \<open>
  The entries of \<open>productClusters\<close>, \<open>clusterHighlights\<close> and \<open>categoryTree\<close>: the
  handlers read their \<open>id\<close> only.
\<close>

record Entry =
  Entry_id :: prim

record Property =
  Property_name :: prim
  Property_values :: "prim list"

text \<open>
  Prices and quantities arrive as finite Numbers; comparing two finite Numbers compares
  the rationals they stand for.
\<close>

record CommertialOffer =
  ListPrice :: rat
  Price :: rat
  AvailableQuantity :: rat

record Seller =
  sellerId :: string
  sellerDefault :: bool
  commertialOffer :: CommertialOffer

record ContextValues =
  productId :: "prim js"
  categoryId :: "prim js"
  brandId :: "prim js"
  productClusters :: "Entry list js"
  clusterHighlights :: "Entry list js"
  categoryTree :: "Entry list js"
  selectedItemId :: "prim js"
  specificationProperties :: "Property list js"
  areAllVariationsSelected :: bool
  sellers :: "Seller list js"

text \<open>\<open>HandlerArguments\<close>; a condition may come without \<open>args\<close>, hence \<open>args?.\<close> below.\<close>

record IdArgs =
  arg_id :: prim

record SpecArgs =
  arg_name :: prim
  arg_value :: "prim js"

record QuantityArgs =
  quantity :: rat

record BestPriceArgs =
  expected_value :: "bool option"

record SellerIdArgs =
  ids :: "string list"

definition args_id :: "IdArgs option \<Rightarrow> prim js" where
  \<comment> \<open>\<open>args?.id\<close>\<close>
  "args_id args = (case args of None \<Rightarrow> Undefined | Some a \<Rightarrow> Val (arg_id a))"

definition args_name :: "SpecArgs option \<Rightarrow> prim js" where
  \<comment> \<open>\<open>args?.name\<close>\<close>
  "args_name args = (case args of None \<Rightarrow> Undefined | Some a \<Rightarrow> Val (arg_name a))"

definition args_value :: "SpecArgs option \<Rightarrow> prim js" where
  \<comment> \<open>\<open>args?.value\<close> of \<open>specificationProperties\<close>\<close>
  "args_value args = (case args of None \<Rightarrow> Undefined | Some a \<Rightarrow> arg_value a)"

definition args_quantity :: "QuantityArgs option \<Rightarrow> rat js" where
  \<comment> \<open>\<open>args?.quantity\<close>\<close>
  "args_quantity args = (case args of None \<Rightarrow> Undefined | Some a \<Rightarrow> Val (quantity a))"

definition args_expected :: "BestPriceArgs option \<Rightarrow> bool" where
  \<comment> \<open>\<open>args?.value ?? true\<close> of \<open>hasBestPrice\<close>\<close>
  "args_expected args =
     (case args of
        None \<Rightarrow> True
      | Some a \<Rightarrow> (case expected_value a of None \<Rightarrow> True | Some b \<Rightarrow> b))"

definition args_ids_includes :: "SellerIdArgs option \<Rightarrow> string \<Rightarrow> js_result" where
  \<comment> \<open>\<open>args?.ids?.includes(x)\<close>\<close>
  "args_ids_includes args x =
     (case args of None \<Rightarrow> JUndefined | Some a \<Rightarrow> JBool (x \<in> set (ids a)))"

definition available :: "Seller \<Rightarrow> bool" where
  \<comment> \<open>\<open>(seller) => seller.commertialOffer.AvailableQuantity > 0\<close>\<close>
  "available seller = (0 < AvailableQuantity (commertialOffer seller))"

definition id_matches :: "IdArgs option \<Rightarrow> Entry \<Rightarrow> bool" where
  \<comment> \<open>\<open>({ id }) => String(id) === String(args?.id)\<close>\<close>
  "id_matches args e = (js_String (Val (Entry_id e)) = js_String (args_id args))"


section \<open>\<open>HANDLERS\<close>\<close>

definition HANDLERS_productId :: "ContextValues \<Rightarrow> IdArgs option \<Rightarrow> handler_result" where
  "HANDLERS_productId values args =
     Inr (JBool (js_String (productId values) = js_String (args_id args)))"

definition HANDLERS_categoryId :: "ContextValues \<Rightarrow> IdArgs option \<Rightarrow> handler_result" where
  "HANDLERS_categoryId values args =
     Inr (JBool (js_String (categoryId values) = js_String (args_id args)))"

definition HANDLERS_brandId :: "ContextValues \<Rightarrow> IdArgs option \<Rightarrow> handler_result" where
  "HANDLERS_brandId values args =
     Inr (JBool (js_String (brandId values) = js_String (args_id args)))"

definition HANDLERS_selectedItemId :: "ContextValues \<Rightarrow> IdArgs option \<Rightarrow> handler_result" where
  "HANDLERS_selectedItemId values args =
     Inr (JBool (js_String (selectedItemId values) = js_String (args_id args)))"

definition HANDLERS_areAllVariationsSelected :: "ContextValues \<Rightarrow> unit option \<Rightarrow> handler_result" where
  "HANDLERS_areAllVariationsSelected values args = Inr (JBool (areAllVariationsSelected values))"

definition HANDLERS_productClusters :: "ContextValues \<Rightarrow> IdArgs option \<Rightarrow> handler_result" where
  "HANDLERS_productClusters values args =
     Inr (JBool (truthy_obj (opt_find (id_matches args) (productClusters values))))"

definition HANDLERS_productClusterHighlights :: "ContextValues \<Rightarrow> IdArgs option \<Rightarrow> handler_result" where
  "HANDLERS_productClusterHighlights values args =
     Inr (opt_some (id_matches args) (clusterHighlights values))"

definition HANDLERS_categoryTree :: "ContextValues \<Rightarrow> IdArgs option \<Rightarrow> handler_result" where
  "HANDLERS_categoryTree values args =
     Inr (JBool (truthy_obj (opt_find (id_matches args) (categoryTree values))))"

definition HANDLERS_specificationProperties :: "ContextValues \<Rightarrow> SpecArgs option \<Rightarrow> handler_result" where
  "HANDLERS_specificationProperties values args =
     (let specification =
            opt_find (\<lambda>p. Val (Property_name p) = args_name args) (specificationProperties values)
      in case specification of
           Val spec \<Rightarrow>
             if nullish (args_value args) then Inr (JBool (truthy_obj specification))
             else Inr (JBool (Str (js_String (args_value args)) \<in> set (Property_values spec)))
         | _ \<Rightarrow> Inr (JBool False))"

definition HANDLERS_isProductAvailable :: "ContextValues \<Rightarrow> unit option \<Rightarrow> handler_result" where
  "HANDLERS_isProductAvailable values args =
     (let isAvailable = opt_some available (sellers values)
      in Inr (JBool (js_Boolean isAvailable)))"

definition HANDLERS_hasMoreSellersThan :: "ContextValues \<Rightarrow> QuantityArgs option \<Rightarrow> handler_result" where
  "HANDLERS_hasMoreSellersThan values args =
     (let productAvailable = opt_filter available (sellers values);
          isMoreThan = js_gt (opt_length productAvailable) (args_quantity args)
      in Inr (JBool isMoreThan))"

definition HANDLERS_hasBestPrice :: "ContextValues \<Rightarrow> BestPriceArgs option \<Rightarrow> handler_result" where
  "HANDLERS_hasBestPrice values args =
     (case (case opt_find sellerDefault (sellers values) of
              Val s \<Rightarrow> Inr (Val s)
            | _ \<Rightarrow> index0 (sellers values)) of
        Inl e \<Rightarrow> Inl e
      | Inr (Val seller) \<Rightarrow>
          (let expected = args_expected args;
               hasDiscount = (ListPrice (commertialOffer seller) \<noteq> Price (commertialOffer seller))
           in Inr (JBool (hasDiscount = expected)))
      | Inr _ \<Rightarrow> Inl TypeError)"

definition HANDLERS_sellerId :: "ContextValues \<Rightarrow> SellerIdArgs option \<Rightarrow> handler_result" where
  "HANDLERS_sellerId values args =
     (let availableSellers = opt_filter available (sellers values);
          matchSellers =
            opt_some (\<lambda>availableSeller. js_Boolean (args_ids_includes args (sellerId availableSeller)))
              availableSellers
      in Inr matchSellers)"


section \<open>The component\<close>

text \<open>
  What \<open>useProduct()\<close> gives. \<open>product\<close> and \<open>selectedItem\<close> may be missing or \<open>null\<close>;
  \<open>skuSelector\<close> is an object when it is there.
\<close>

record Product =
  Product_productId :: "prim js"
  Product_categoryId :: "prim js"
  Product_brandId :: "prim js"
  Product_productClusters :: "Entry list js"
  Product_clusterHighlights :: "Entry list js"
  Product_categoryTree :: "Entry list js"
  Product_properties :: "Property list js"

record Item =
  Item_itemId :: "prim js"
  Item_sellers :: "Seller list js"

record SkuSelector =
  SkuSelector_areAllVariationsSelected :: "bool option"

record ProductContext =
  product :: "Product js"
  selectedItem :: "Item js"
  skuSelector :: "SkuSelector option"

definition field :: "('r \<Rightarrow> 'a js) \<Rightarrow> 'r js \<Rightarrow> 'a js" where
  \<comment> \<open>\<open>const { f } = r ?? {}\<close>\<close>
  "field f r = (case r of Val x \<Rightarrow> f x | _ \<Rightarrow> Undefined)"

definition useProduct_areAllVariationsSelected :: "ProductContext js \<Rightarrow> bool" where
  \<comment> \<open>\<open>skuSelector: { areAllVariationsSelected = false } = {}\<close> out of \<open>useProduct() ?? {}\<close>\<close>
  "useProduct_areAllVariationsSelected ctx =
     (case ctx of
        Val c \<Rightarrow>
          (case skuSelector c of
             Some sel \<Rightarrow> (case SkuSelector_areAllVariationsSelected sel of Some b \<Rightarrow> b | None \<Rightarrow> False)
           | None \<Rightarrow> False)
      | _ \<Rightarrow> False)"

definition ConditionLayoutProduct_values :: "ProductContext js \<Rightarrow> ContextValues" where
  \<comment> \<open>the \<open>bag\<close> of the \<open>useMemo\<close>; its dependency list names every input, so the memoised
      value is the value computed from the current context\<close>
  "ConditionLayoutProduct_values ctx =
     (let product = field product ctx;
          selectedItem = field selectedItem ctx
      in \<lparr> productId = field Product_productId product,
           categoryId = field Product_categoryId product,
           brandId = field Product_brandId product,
           productClusters = field Product_productClusters product,
           clusterHighlights = field Product_clusterHighlights product,
           categoryTree = field Product_categoryTree product,
           selectedItemId = field Item_itemId selectedItem,
           specificationProperties = field Product_properties product,
           areAllVariationsSelected = useProduct_areAllVariationsSelected ctx,
           sellers = field Item_sellers selectedItem \<rparr>)"

text \<open>
  What the component renders: nothing, or the \<open>ConditionLayout\<close> element with the props
  passed through (\<open>Else\<close>, \<open>Then\<close>, \<open>matchType\<close>, \<open>conditions\<close>, \<open>children\<close>), the
  values and \<open>HANDLERS\<close>.
\<close>

datatype 'p rendered = RenderNull | ConditionLayout 'p ContextValues

definition ConditionLayoutProduct :: "'p \<Rightarrow> ProductContext js \<Rightarrow> 'p rendered" where
  "ConditionLayoutProduct props ctx =
     (let values = ConditionLayoutProduct_values ctx
      in if nullish (selectedItemId values) \<or> nullish (productId values) then RenderNull
         else ConditionLayout props values)"


section \<open>Sample data\<close>

definition no_product :: Product where
  "no_product =
     \<lparr> Product_productId = Undefined, Product_categoryId = Undefined,
       Product_brandId = Undefined, Product_productClusters = Undefined,
       Product_clusterHighlights = Undefined, Product_categoryTree = Undefined,
       Product_properties = Undefined \<rparr>"

definition no_values :: ContextValues where
  "no_values =
     \<lparr> productId = Undefined, categoryId = Undefined, brandId = Undefined,
       productClusters = Undefined, clusterHighlights = Undefined, categoryTree = Undefined,
       selectedItemId = Undefined, specificationProperties = Undefined,
       areAllVariationsSelected = False, sellers = Undefined \<rparr>"

definition offer :: "string \<Rightarrow> bool \<Rightarrow> rat \<Rightarrow> rat \<Rightarrow> rat \<Rightarrow> Seller" where
  \<comment> \<open>a seller with the given id, default flag, list price, price and available quantity\<close>
  "offer sid dflt lp p q =
     \<lparr> sellerId = sid, sellerDefault = dflt,
       commertialOffer = \<lparr> ListPrice = lp, Price = p, AvailableQuantity = q \<rparr> \<rparr>"


section \<open>Auxiliary facts\<close>

lemma find_first_match:
  "\<forall>y\<in>set ys. \<not> P y \<Longrightarrow> P x \<Longrightarrow> find P (ys @ x # zs) = Some x"
  by (induction ys) auto

lemma nullish_simps [simp]:
  "nullish Undefined" "nullish Null" "\<not> nullish (Val x)"
  by (simp_all add: nullish_def)

lemma field_simps [simp]:
  "field f Undefined = Undefined" "field f Null = Undefined" "field f (Val r) = f r"
  by (simp_all add: field_def)

lemma js_String_Str [simp]: "js_String (Val (Str s)) = s"
  by (simp add: js_String_def)

text \<open>
  The digits printed for a safe integer read back as that integer, so two safe integers
  with the same string form are equal.
\<close>

lemma digit_cases: "d < 10 \<Longrightarrow> d \<in> {0, 1, 2, 3, 4, 5, 6, 7, 8, 9::nat}"
  by auto

lemma digit_value_digit_char: "d < 10 \<Longrightarrow> digit_value (digit_char d) = d"
  by (drule digit_cases) (auto simp: digit_value_def digit_char_def)

lemma digit_char_not_minus: "d < 10 \<Longrightarrow> digit_char d \<noteq> CHR ''-''"
  by (drule digit_cases) (auto simp: digit_char_def)

lemma decimal_value_snoc: "decimal_value (s @ [c]) = 10 * decimal_value s + digit_value c"
  by (simp add: decimal_value_def)

lemma decimal_value_string_of_nat: "decimal_value (string_of_nat n) = n"
proof (induction n rule: string_of_nat.induct)
  case (1 n)
  show ?case
  proof (cases "n < 10")
    case True
    then show ?thesis
      by (subst string_of_nat.simps) (simp add: decimal_value_def digit_value_digit_char)
  next
    case False
    with "1" have "decimal_value (string_of_nat (n div 10)) = n div 10"
      by simp
    with False show ?thesis
      by (subst string_of_nat.simps) (simp add: decimal_value_snoc digit_value_digit_char)
  qed
qed

lemma string_of_nat_first: "\<exists>d r. d < 10 \<and> string_of_nat n = digit_char d # r"
proof (induction n rule: string_of_nat.induct)
  case (1 n)
  show ?case
  proof (cases "n < 10")
    case True
    then show ?thesis
      by (subst string_of_nat.simps) auto
  next
    case False
    with "1" obtain d r where "d < 10" "string_of_nat (n div 10) = digit_char d # r"
      by auto
    with False show ?thesis
      by (subst string_of_nat.simps) auto
  qed
qed

lemma decimal_int_js_String: "decimal_int (js_String (Val (Num n))) = int_of_safe n"
proof (cases "int_of_safe n < 0")
  case True
  then show ?thesis
    by (simp add: js_String_def decimal_int_def decimal_value_string_of_nat)
next
  case False
  obtain d r where d: "d < 10" "string_of_nat (nat (int_of_safe n)) = digit_char d # r"
    using string_of_nat_first by blast
  have "decimal_int (string_of_nat (nat (int_of_safe n)))
          = int (decimal_value (string_of_nat (nat (int_of_safe n))))"
    using d digit_char_not_minus [of d] by (simp add: decimal_int_def)
  with False show ?thesis
    by (simp add: js_String_def decimal_value_string_of_nat)
qed

lemma js_String_Num_eq_iff: "(js_String (Val (Num m)) = js_String (Val (Num n))) = (m = n)"
proof
  assume "js_String (Val (Num m)) = js_String (Val (Num n))"
  then have "decimal_int (js_String (Val (Num m))) = decimal_int (js_String (Val (Num n)))"
    by simp
  then show "m = n"
    by (simp add: decimal_int_js_String int_of_safe_inject)
qed simp

lemma js_String_small:
  "js_String (Val (Num (safe_of_int 5))) = ''5''"
  "js_String (Val (Num (safe_of_int 7))) = ''7''"
  "js_String (Val (Num (safe_of_int 123))) = ''123''"
  "js_String (Val (Num (safe_of_int 124))) = ''124''"
  "js_String (Val (Num (safe_of_int (- 40)))) = ''-40''"
  by (simp_all add: js_String_def safe_of_int_inverse string_of_nat.simps digit_char_def)

lemma available_eq: "available = (\<lambda>s. 0 < AvailableQuantity (commertialOffer s))"
  by (rule ext) (simp add: available_def)

lemma args_expected_simps:
  "args_expected None = True"
  "args_expected (Some \<lparr>expected_value = None\<rparr>) = True"
  "args_expected (Some \<lparr>expected_value = Some v\<rparr>) = v"
  by (simp_all add: args_expected_def)


section \<open>The readiness gate\<close>

text \<open>
  C1. Whenever the normalized values lack \<open>productId\<close> or \<open>selectedItemId\<close> (the field is
  \<open>null\<close> or \<open>undefined\<close>), the component renders \<open>null\<close>: no \<open>ConditionLayout\<close> element
  is built, so the conditions are never evaluated on the partial values.
\<close>

theorem not_ready_renders_null:
  "nullish (productId (ConditionLayoutProduct_values ctx))
     \<or> nullish (selectedItemId (ConditionLayoutProduct_values ctx))
   \<Longrightarrow> ConditionLayoutProduct props ctx = RenderNull
       \<and> (\<forall>p v. ConditionLayoutProduct props ctx \<noteq> ConditionLayout p v)"
  by (auto simp: ConditionLayoutProduct_def Let_def)

theorem not_ready_renders_null_witness:
  "nullish (selectedItemId (ConditionLayoutProduct_values
       (Val \<lparr> product = Val (no_product\<lparr>Product_productId := Val (Str ''1'')\<rparr>),
              selectedItem = Null, skuSelector = None \<rparr>)))
   \<and> ConditionLayoutProduct ()
       (Val \<lparr> product = Val (no_product\<lparr>Product_productId := Val (Str ''1'')\<rparr>),
              selectedItem = Null, skuSelector = None \<rparr>) = RenderNull"
proof -
  have gate: "nullish (selectedItemId (ConditionLayoutProduct_values
       (Val \<lparr> product = Val (no_product\<lparr>Product_productId := Val (Str ''1'')\<rparr>),
              selectedItem = Null, skuSelector = None \<rparr>)))"
    by (simp add: ConditionLayoutProduct_values_def)
  then show ?thesis
    using not_ready_renders_null [where props = "()" and ctx =
       "Val \<lparr> product = Val (no_product\<lparr>Product_productId := Val (Str ''1'')\<rparr>),
              selectedItem = Null, skuSelector = None \<rparr>"]
    by blast
qed

text \<open>
  The gate lets a context through exactly when it holds a product and a selected item.
\<close>

lemma ready_has_product_and_item:
  assumes "\<not> nullish (productId (ConditionLayoutProduct_values ctx))"
    and "\<not> nullish (selectedItemId (ConditionLayoutProduct_values ctx))"
  shows "\<exists>c p it. ctx = Val c \<and> product c = Val p \<and> selectedItem c = Val it"
proof (cases ctx)
  case Undefined
  with assms show ?thesis by (simp add: ConditionLayoutProduct_values_def)
next
  case Null
  with assms show ?thesis by (simp add: ConditionLayoutProduct_values_def)
next
  case (Val c)
  with assms show ?thesis
    by (cases "product c"; cases "selectedItem c")
      (simp_all add: ConditionLayoutProduct_values_def)
qed

text \<open>
  C9 reads: once the gate has passed, every other field of the values is defined, a field
  missing upstream being replaced by an empty collection or false. This does not hold: a
  product that carries only its id and a selected item without sellers pass the gate, and
  \<open>clusterHighlights\<close> and \<open>sellers\<close> are still \<open>undefined\<close> in the values handed to
  \<open>ConditionLayout\<close>.
\<close>

theorem unnormalized_fields_counterexample:
  "ConditionLayoutProduct ()
     (Val \<lparr> product = Val (no_product\<lparr>Product_productId := Val (Str ''1'')\<rparr>),
            selectedItem = Val \<lparr> Item_itemId = Val (Str ''2''), Item_sellers = Undefined \<rparr>,
            skuSelector = None \<rparr>)
   = ConditionLayout ()
       (no_values\<lparr>productId := Val (Str ''1''), selectedItemId := Val (Str ''2'')\<rparr>)
   \<and> clusterHighlights (no_values\<lparr>productId := Val (Str ''1''), selectedItemId := Val (Str ''2'')\<rparr>)
       = Undefined
   \<and> sellers (no_values\<lparr>productId := Val (Str ''1''), selectedItemId := Val (Str ''2'')\<rparr>)
       = Undefined"
  by (simp add: ConditionLayoutProduct_def ConditionLayoutProduct_values_def no_product_def
      no_values_def useProduct_areAllVariationsSelected_def)

text \<open>
  C9, as the code has it. When the gate passes, the context holds a product and a selected
  item, \<open>productId\<close> and \<open>selectedItemId\<close> are neither \<open>null\<close> nor \<open>undefined\<close>,
  \<open>areAllVariationsSelected\<close> is the flag of the SKU selector or \<open>false\<close> when that is
  missing, and every other field is the field of the product or of the selected item,
  unchanged: what is missing upstream stays \<open>undefined\<close>.
\<close>

theorem ready_values_pass_through:
  assumes "ConditionLayoutProduct props ctx = ConditionLayout props' values"
  shows "\<exists>c p it. ctx = Val c \<and> product c = Val p \<and> selectedItem c = Val it
           \<and> \<not> nullish (productId values) \<and> \<not> nullish (selectedItemId values)
           \<and> productId values = Product_productId p
           \<and> selectedItemId values = Item_itemId it
           \<and> categoryId values = Product_categoryId p
           \<and> brandId values = Product_brandId p
           \<and> productClusters values = Product_productClusters p
           \<and> clusterHighlights values = Product_clusterHighlights p
           \<and> categoryTree values = Product_categoryTree p
           \<and> specificationProperties values = Product_properties p
           \<and> sellers values = Item_sellers it
           \<and> areAllVariationsSelected values =
                (case skuSelector c of
                   None \<Rightarrow> False
                 | Some sel \<Rightarrow>
                     (case SkuSelector_areAllVariationsSelected sel of None \<Rightarrow> False | Some b \<Rightarrow> b))"
proof -
  from assms have v: "values = ConditionLayoutProduct_values ctx"
    and ready: "\<not> nullish (productId (ConditionLayoutProduct_values ctx))"
      "\<not> nullish (selectedItemId (ConditionLayoutProduct_values ctx))"
    by (auto simp: ConditionLayoutProduct_def Let_def split: if_splits)
  from ready_has_product_and_item [OF ready] obtain c p it
    where c: "ctx = Val c" "product c = Val p" "selectedItem c = Val it"
    by blast
  have "values = \<lparr> productId = Product_productId p, categoryId = Product_categoryId p,
      brandId = Product_brandId p, productClusters = Product_productClusters p,
      clusterHighlights = Product_clusterHighlights p, categoryTree = Product_categoryTree p,
      selectedItemId = Item_itemId it, specificationProperties = Product_properties p,
      areAllVariationsSelected = useProduct_areAllVariationsSelected ctx,
      sellers = Item_sellers it \<rparr>"
    using c by (simp add: v ConditionLayoutProduct_values_def)
  moreover have "useProduct_areAllVariationsSelected ctx =
      (case skuSelector c of
         None \<Rightarrow> False
       | Some sel \<Rightarrow>
           (case SkuSelector_areAllVariationsSelected sel of None \<Rightarrow> False | Some b \<Rightarrow> b))"
    using c by (simp add: useProduct_areAllVariationsSelected_def split: option.splits)
  moreover have "\<not> nullish (productId values)" "\<not> nullish (selectedItemId values)"
    using ready by (simp_all add: v)
  ultimately show ?thesis
    using c by simp
qed

theorem ready_values_pass_through_witness:
  "ConditionLayoutProduct ()
     (Val \<lparr> product = Val (no_product\<lparr>Product_productId := Val (Num (safe_of_int 123)),
                                       Product_productClusters := Val [\<lparr>Entry_id = Str ''A''\<rparr>]\<rparr>),
            selectedItem = Val \<lparr> Item_itemId = Val (Str ''2''), Item_sellers = Undefined \<rparr>,
            skuSelector = Some \<lparr> SkuSelector_areAllVariationsSelected = Some True \<rparr> \<rparr>)
   = ConditionLayout ()
       (no_values\<lparr>productId := Val (Num (safe_of_int 123)), productClusters := Val [\<lparr>Entry_id = Str ''A''\<rparr>],
                  selectedItemId := Val (Str ''2''), areAllVariationsSelected := True\<rparr>)
   \<and> sellers (no_values\<lparr>productId := Val (Num (safe_of_int 123)), productClusters := Val [\<lparr>Entry_id = Str ''A''\<rparr>],
                  selectedItemId := Val (Str ''2''), areAllVariationsSelected := True\<rparr>)
       = Undefined"
proof -
  have run: "ConditionLayoutProduct ()
     (Val \<lparr> product = Val (no_product\<lparr>Product_productId := Val (Num (safe_of_int 123)),
                                       Product_productClusters := Val [\<lparr>Entry_id = Str ''A''\<rparr>]\<rparr>),
            selectedItem = Val \<lparr> Item_itemId = Val (Str ''2''), Item_sellers = Undefined \<rparr>,
            skuSelector = Some \<lparr> SkuSelector_areAllVariationsSelected = Some True \<rparr> \<rparr>)
   = ConditionLayout ()
       (no_values\<lparr>productId := Val (Num (safe_of_int 123)), productClusters := Val [\<lparr>Entry_id = Str ''A''\<rparr>],
                  selectedItemId := Val (Str ''2''), areAllVariationsSelected := True\<rparr>)"
    by (simp add: ConditionLayoutProduct_def ConditionLayoutProduct_values_def no_product_def
        no_values_def useProduct_areAllVariationsSelected_def)
  from ready_values_pass_through [OF run]
  have "sellers (no_values\<lparr>productId := Val (Num (safe_of_int 123)), productClusters := Val [\<lparr>Entry_id = Str ''A''\<rparr>],
                  selectedItemId := Val (Str ''2''), areAllVariationsSelected := True\<rparr>)
       = Undefined"
    by auto
  with run show ?thesis by blast
qed


section \<open>Identifier handlers\<close>

text \<open>
  C5. \<open>productId\<close>, \<open>categoryId\<close>, \<open>brandId\<close> and \<open>selectedItemId\<close> hold exactly when the
  string form of the fact equals the string form of \<open>args.id\<close>. So a fact matches an
  argument equal to itself, and the numeric fact 123 matches the argument \<open>"123"\<close>.
  What this comes to on identifiers: two numbers match exactly when they are the same
  number, two strings exactly when they are the same string, and a number matches a
  string (on either side) only if the string reads as that number; it does when the
  string is the number's decimal form (\<open>"123"\<close> for 123) and does not for another number's
  form (\<open>"124"\<close>) or another spelling (\<open>"0123"\<close>).
\<close>

theorem identifier_handlers_compare_strings:
  "HANDLERS_productId values args =
       Inr (JBool (js_String (productId values) = js_String (args_id args)))
   \<and> HANDLERS_categoryId values args =
       Inr (JBool (js_String (categoryId values) = js_String (args_id args)))
   \<and> HANDLERS_brandId values args =
       Inr (JBool (js_String (brandId values) = js_String (args_id args)))
   \<and> HANDLERS_selectedItemId values args =
       Inr (JBool (js_String (selectedItemId values) = js_String (args_id args)))
   \<and> HANDLERS_productId (values\<lparr>productId := Val x\<rparr>) (Some \<lparr>arg_id = x\<rparr>)
       = Inr (JBool True)
   \<and> HANDLERS_categoryId (values\<lparr>categoryId := Val x\<rparr>) (Some \<lparr>arg_id = x\<rparr>)
       = Inr (JBool True)
   \<and> HANDLERS_brandId (values\<lparr>brandId := Val x\<rparr>) (Some \<lparr>arg_id = x\<rparr>)
       = Inr (JBool True)
   \<and> HANDLERS_selectedItemId (values\<lparr>selectedItemId := Val x\<rparr>) (Some \<lparr>arg_id = x\<rparr>)
       = Inr (JBool True)
   \<and> HANDLERS_productId (values\<lparr>productId := Val (Num (safe_of_int 123))\<rparr>)
       (Some \<lparr>arg_id = Str ''123''\<rparr>) = Inr (JBool True)
   \<and> HANDLERS_productId (values\<lparr>productId := Val (Num m)\<rparr>) (Some \<lparr>arg_id = Num n\<rparr>)
       = Inr (JBool (m = n))
   \<and> HANDLERS_categoryId (values\<lparr>categoryId := Val (Num m)\<rparr>) (Some \<lparr>arg_id = Num n\<rparr>)
       = Inr (JBool (m = n))
   \<and> HANDLERS_brandId (values\<lparr>brandId := Val (Num m)\<rparr>) (Some \<lparr>arg_id = Num n\<rparr>)
       = Inr (JBool (m = n))
   \<and> HANDLERS_selectedItemId (values\<lparr>selectedItemId := Val (Num m)\<rparr>) (Some \<lparr>arg_id = Num n\<rparr>)
       = Inr (JBool (m = n))
   \<and> HANDLERS_productId (values\<lparr>productId := Val (Str s)\<rparr>) (Some \<lparr>arg_id = Str t\<rparr>)
       = Inr (JBool (s = t))
   \<and> HANDLERS_categoryId (values\<lparr>categoryId := Val (Str s)\<rparr>) (Some \<lparr>arg_id = Str t\<rparr>)
       = Inr (JBool (s = t))
   \<and> HANDLERS_brandId (values\<lparr>brandId := Val (Str s)\<rparr>) (Some \<lparr>arg_id = Str t\<rparr>)
       = Inr (JBool (s = t))
   \<and> HANDLERS_selectedItemId (values\<lparr>selectedItemId := Val (Str s)\<rparr>) (Some \<lparr>arg_id = Str t\<rparr>)
       = Inr (JBool (s = t))
   \<and> (HANDLERS_productId (values\<lparr>productId := Val (Num n)\<rparr>) (Some \<lparr>arg_id = Str t\<rparr>)
         = Inr (JBool True) \<longrightarrow> decimal_int t = int_of_safe n)
   \<and> (HANDLERS_categoryId (values\<lparr>categoryId := Val (Num n)\<rparr>) (Some \<lparr>arg_id = Str t\<rparr>)
         = Inr (JBool True) \<longrightarrow> decimal_int t = int_of_safe n)
   \<and> (HANDLERS_brandId (values\<lparr>brandId := Val (Num n)\<rparr>) (Some \<lparr>arg_id = Str t\<rparr>)
         = Inr (JBool True) \<longrightarrow> decimal_int t = int_of_safe n)
   \<and> (HANDLERS_selectedItemId (values\<lparr>selectedItemId := Val (Num n)\<rparr>) (Some \<lparr>arg_id = Str t\<rparr>)
         = Inr (JBool True) \<longrightarrow> decimal_int t = int_of_safe n)
   \<and> (HANDLERS_productId (values\<lparr>productId := Val (Str t)\<rparr>) (Some \<lparr>arg_id = Num n\<rparr>)
         = Inr (JBool True) \<longrightarrow> decimal_int t = int_of_safe n)
   \<and> (HANDLERS_categoryId (values\<lparr>categoryId := Val (Str t)\<rparr>) (Some \<lparr>arg_id = Num n\<rparr>)
         = Inr (JBool True) \<longrightarrow> decimal_int t = int_of_safe n)
   \<and> (HANDLERS_brandId (values\<lparr>brandId := Val (Str t)\<rparr>) (Some \<lparr>arg_id = Num n\<rparr>)
         = Inr (JBool True) \<longrightarrow> decimal_int t = int_of_safe n)
   \<and> (HANDLERS_selectedItemId (values\<lparr>selectedItemId := Val (Str t)\<rparr>) (Some \<lparr>arg_id = Num n\<rparr>)
         = Inr (JBool True) \<longrightarrow> decimal_int t = int_of_safe n)
   \<and> HANDLERS_productId (values\<lparr>productId := Val (Str ''123'')\<rparr>)
       (Some \<lparr>arg_id = Num (safe_of_int 123)\<rparr>) = Inr (JBool True)
   \<and> HANDLERS_productId (values\<lparr>productId := Val (Num (safe_of_int 123))\<rparr>)
       (Some \<lparr>arg_id = Str ''124''\<rparr>) = Inr (JBool False)
   \<and> HANDLERS_productId (values\<lparr>productId := Val (Num (safe_of_int 123))\<rparr>)
       (Some \<lparr>arg_id = Str ''0123''\<rparr>) = Inr (JBool False)"
proof -
  have other: "''123'' \<noteq> ''124''" "''123'' \<noteq> ''0123''"
    by simp_all
  show ?thesis
    using other
    by (auto simp: HANDLERS_productId_def HANDLERS_categoryId_def HANDLERS_brandId_def
        HANDLERS_selectedItemId_def args_id_def js_String_Num_eq_iff js_String_small
        decimal_int_js_String)
qed

theorem identifier_handlers_compare_strings_witness:
  "HANDLERS_brandId (no_values\<lparr>brandId := Val (Num (safe_of_int 123))\<rparr>)
     (Some \<lparr>arg_id = Str ''123''\<rparr>) = Inr (JBool True)
   \<and> decimal_int ''123'' = int_of_safe (safe_of_int 123)
   \<and> HANDLERS_brandId (no_values\<lparr>brandId := Val (Num (safe_of_int 123))\<rparr>)
     (Some \<lparr>arg_id = Num (safe_of_int 124)\<rparr>) = Inr (JBool False)"
proof -
  have distinct: "safe_of_int 123 \<noteq> safe_of_int 124"
    by (simp add: safe_of_int_inject)
  have matches: "HANDLERS_brandId (no_values\<lparr>brandId := Val (Num (safe_of_int 123))\<rparr>)
     (Some \<lparr>arg_id = Str ''123''\<rparr>) = Inr (JBool True)"
    by (simp add: HANDLERS_brandId_def args_id_def js_String_small)
  from matches have reads: "decimal_int ''123'' = int_of_safe (safe_of_int 123)"
    using identifier_handlers_compare_strings
      [of no_values None "Num (safe_of_int 123)" "safe_of_int 123" "safe_of_int 123" "''a''" "''123''"]
    by blast
  from distinct have differs:
    "HANDLERS_brandId (no_values\<lparr>brandId := Val (Num (safe_of_int 123))\<rparr>)
       (Some \<lparr>arg_id = Num (safe_of_int 124)\<rparr>) = Inr (JBool False)"
    using identifier_handlers_compare_strings
      [of no_values None "Num (safe_of_int 123)" "safe_of_int 123" "safe_of_int 124" "''a''" "''123''"]
    by simp
  from matches reads differs show ?thesis
    by blast
qed


section \<open>\<open>specificationProperties\<close>\<close>

lemma specificationProperties_found:
  assumes "specificationProperties values = Val (pre @ p # post)"
    and "\<forall>q\<in>set pre. Property_name q \<noteq> n" and "Property_name p = n"
  shows "HANDLERS_specificationProperties values (Some \<lparr>arg_name = n, arg_value = v\<rparr>) =
           Inr (JBool (if nullish v then True else Str (js_String v) \<in> set (Property_values p)))"
proof -
  have "find (\<lambda>q. Val (Property_name q) = Val n) (pre @ p # post) = Some p"
    using assms(2,3) by (intro find_first_match) auto
  then show ?thesis
    using assms(1)
    by (simp add: HANDLERS_specificationProperties_def opt_find_def args_name_def args_value_def
        truthy_obj_def)
qed

lemma specificationProperties_not_found:
  assumes "\<forall>ps. specificationProperties values = Val ps \<longrightarrow> (\<forall>q\<in>set ps. Property_name q \<noteq> n)"
  shows "HANDLERS_specificationProperties values (Some \<lparr>arg_name = n, arg_value = v\<rparr>)
           = Inr (JBool False)"
proof (cases "specificationProperties values")
  case Undefined
  then show ?thesis by (simp add: HANDLERS_specificationProperties_def opt_find_def)
next
  case Null
  then show ?thesis by (simp add: HANDLERS_specificationProperties_def opt_find_def)
next
  case (Val ps)
  with assms have "find (\<lambda>q. Val (Property_name q) = Val n) ps = None"
    by (simp add: find_None_iff)
  with Val show ?thesis
    by (simp add: HANDLERS_specificationProperties_def opt_find_def args_name_def)
qed

text \<open>
  C6. With arguments \<open>{name, value?}\<close>: when no property has that name (or there are no
  properties at all) the handler gives false; otherwise it takes the first property of
  that name, gives true when \<open>value\<close> is omitted, and for a given string \<open>value\<close> gives true
  exactly when that string is among the property's values.
\<close>

theorem specificationProperties_by_name_and_value:
  "((\<forall>ps. specificationProperties values = Val ps \<longrightarrow> (\<forall>q\<in>set ps. Property_name q \<noteq> n))
      \<longrightarrow> HANDLERS_specificationProperties values (Some \<lparr>arg_name = n, arg_value = v\<rparr>)
            = Inr (JBool False))
   \<and> (specificationProperties values = Val (pre @ p # post)
        \<and> (\<forall>q\<in>set pre. Property_name q \<noteq> n) \<and> Property_name p = n
      \<longrightarrow> HANDLERS_specificationProperties values (Some \<lparr>arg_name = n, arg_value = Undefined\<rparr>)
            = Inr (JBool True)
        \<and> HANDLERS_specificationProperties values (Some \<lparr>arg_name = n, arg_value = Val (Str w)\<rparr>)
            = Inr (JBool (Str w \<in> set (Property_values p))))"
  using specificationProperties_not_found [of "values" n v]
    specificationProperties_found [of "values" pre p post n Undefined]
    specificationProperties_found [of "values" pre p post n "Val (Str w)"]
  by simp

theorem specificationProperties_by_name_and_value_witness:
  "HANDLERS_specificationProperties
     (no_values\<lparr>specificationProperties :=
        Val [\<lparr>Property_name = Str ''size'', Property_values = [Str ''M'']\<rparr>,
             \<lparr>Property_name = Str ''color'', Property_values = [Str ''red'', Str ''blue'']\<rparr>]\<rparr>)
     (Some \<lparr>arg_name = Str ''weight'', arg_value = Undefined\<rparr>) = Inr (JBool False)
   \<and> HANDLERS_specificationProperties
     (no_values\<lparr>specificationProperties :=
        Val [\<lparr>Property_name = Str ''size'', Property_values = [Str ''M'']\<rparr>,
             \<lparr>Property_name = Str ''color'', Property_values = [Str ''red'', Str ''blue'']\<rparr>]\<rparr>)
     (Some \<lparr>arg_name = Str ''color'', arg_value = Undefined\<rparr>) = Inr (JBool True)
   \<and> HANDLERS_specificationProperties
     (no_values\<lparr>specificationProperties :=
        Val [\<lparr>Property_name = Str ''size'', Property_values = [Str ''M'']\<rparr>,
             \<lparr>Property_name = Str ''color'', Property_values = [Str ''red'', Str ''blue'']\<rparr>]\<rparr>)
     (Some \<lparr>arg_name = Str ''color'', arg_value = Val (Str ''red'')\<rparr>) = Inr (JBool True)
   \<and> HANDLERS_specificationProperties
     (no_values\<lparr>specificationProperties :=
        Val [\<lparr>Property_name = Str ''size'', Property_values = [Str ''M'']\<rparr>,
             \<lparr>Property_name = Str ''color'', Property_values = [Str ''red'', Str ''blue'']\<rparr>]\<rparr>)
     (Some \<lparr>arg_name = Str ''color'', arg_value = Val (Str ''green'')\<rparr>) = Inr (JBool False)"
  using
    specificationProperties_by_name_and_value
      [of "no_values\<lparr>specificationProperties :=
        Val [\<lparr>Property_name = Str ''size'', Property_values = [Str ''M'']\<rparr>,
             \<lparr>Property_name = Str ''color'', Property_values = [Str ''red'', Str ''blue'']\<rparr>]\<rparr>" "Str ''weight''" Undefined "[]"
        "\<lparr>Property_name = Str ''weight'', Property_values = []\<rparr>" "[]" "''x''"]
    specificationProperties_by_name_and_value
      [of "no_values\<lparr>specificationProperties :=
        Val [\<lparr>Property_name = Str ''size'', Property_values = [Str ''M'']\<rparr>,
             \<lparr>Property_name = Str ''color'', Property_values = [Str ''red'', Str ''blue'']\<rparr>]\<rparr>" "Str ''color''" Undefined
        "[\<lparr>Property_name = Str ''size'', Property_values = [Str ''M'']\<rparr>]"
        "\<lparr>Property_name = Str ''color'', Property_values = [Str ''red'', Str ''blue'']\<rparr>"
        "[]" "''red''"]
    specificationProperties_by_name_and_value
      [of "no_values\<lparr>specificationProperties :=
        Val [\<lparr>Property_name = Str ''size'', Property_values = [Str ''M'']\<rparr>,
             \<lparr>Property_name = Str ''color'', Property_values = [Str ''red'', Str ''blue'']\<rparr>]\<rparr>" "Str ''color''" Undefined
        "[\<lparr>Property_name = Str ''size'', Property_values = [Str ''M'']\<rparr>]"
        "\<lparr>Property_name = Str ''color'', Property_values = [Str ''red'', Str ''blue'']\<rparr>"
        "[]" "''green''"]
  by simp

text \<open>
  C10. The name is compared with \<open>===\<close>: properties whose names are Numbers never match a
  string \<open>args.name\<close>, whatever their string form, and properties whose names are strings
  never match a numeric \<open>args.name\<close>. The value is passed through \<open>String\<close> before the
  membership test, so the found property holds when the string form of \<open>args.value\<close> is
  among its values: a numeric \<open>args.value\<close> finds the digits of that number among the
  values and does not find the number itself. The identifier handlers convert both sides:
  each of the four compares the string form of the fact with the string form of the
  argument, so a number matches its own digits whichever side the number is on, and
  matches the digits of no other number.
\<close>

theorem specificationProperties_strict_name_coerced_value:
  "(specificationProperties values = Val ps \<and> (\<forall>q\<in>set ps. \<exists>k. Property_name q = Num k)
      \<longrightarrow> HANDLERS_specificationProperties values (Some \<lparr>arg_name = Str s, arg_value = v\<rparr>)
            = Inr (JBool False))
   \<and> (specificationProperties values = Val (pre @ p # post)
        \<and> (\<forall>q\<in>set pre. Property_name q \<noteq> n) \<and> Property_name p = n
      \<longrightarrow> HANDLERS_specificationProperties values (Some \<lparr>arg_name = n, arg_value = Val x\<rparr>)
            = Inr (JBool (Str (js_String (Val x)) \<in> set (Property_values p))))
   \<and> HANDLERS_specificationProperties
       (values\<lparr>specificationProperties := Val [\<lparr>Property_name = Num k, Property_values = vs\<rparr>]\<rparr>)
       (Some \<lparr>arg_name = Str (js_String (Val (Num k))), arg_value = v\<rparr>) = Inr (JBool False)
   \<and> HANDLERS_productId (values\<lparr>productId := Val (Num k)\<rparr>)
       (Some \<lparr>arg_id = Str (js_String (Val (Num k)))\<rparr>) = Inr (JBool True)
   \<and> (specificationProperties values = Val ps \<and> (\<forall>q\<in>set ps. \<exists>r. Property_name q = Str r)
      \<longrightarrow> HANDLERS_specificationProperties values (Some \<lparr>arg_name = Num k, arg_value = v\<rparr>)
            = Inr (JBool False))
   \<and> HANDLERS_specificationProperties
       (values\<lparr>specificationProperties :=
          Val [\<lparr>Property_name = n, Property_values = [Str (js_String (Val (Num j)))]\<rparr>]\<rparr>)
       (Some \<lparr>arg_name = n, arg_value = Val (Num i)\<rparr>) = Inr (JBool (i = j))
   \<and> HANDLERS_specificationProperties
       (values\<lparr>specificationProperties := Val [\<lparr>Property_name = n, Property_values = [Num i]\<rparr>]\<rparr>)
       (Some \<lparr>arg_name = n, arg_value = Val (Num i)\<rparr>) = Inr (JBool False)
   \<and> HANDLERS_productId (values\<lparr>productId := Val a\<rparr>) (Some \<lparr>arg_id = b\<rparr>)
       = Inr (JBool (js_String (Val a) = js_String (Val b)))
   \<and> HANDLERS_categoryId (values\<lparr>categoryId := Val a\<rparr>) (Some \<lparr>arg_id = b\<rparr>)
       = Inr (JBool (js_String (Val a) = js_String (Val b)))
   \<and> HANDLERS_brandId (values\<lparr>brandId := Val a\<rparr>) (Some \<lparr>arg_id = b\<rparr>)
       = Inr (JBool (js_String (Val a) = js_String (Val b)))
   \<and> HANDLERS_selectedItemId (values\<lparr>selectedItemId := Val a\<rparr>) (Some \<lparr>arg_id = b\<rparr>)
       = Inr (JBool (js_String (Val a) = js_String (Val b)))
   \<and> HANDLERS_productId (values\<lparr>productId := Val (Str (js_String (Val (Num k))))\<rparr>)
       (Some \<lparr>arg_id = Num k\<rparr>) = Inr (JBool True)
   \<and> HANDLERS_categoryId (values\<lparr>categoryId := Val (Str (js_String (Val (Num k))))\<rparr>)
       (Some \<lparr>arg_id = Num k\<rparr>) = Inr (JBool True)
   \<and> HANDLERS_brandId (values\<lparr>brandId := Val (Str (js_String (Val (Num k))))\<rparr>)
       (Some \<lparr>arg_id = Num k\<rparr>) = Inr (JBool True)
   \<and> HANDLERS_selectedItemId (values\<lparr>selectedItemId := Val (Str (js_String (Val (Num k))))\<rparr>)
       (Some \<lparr>arg_id = Num k\<rparr>) = Inr (JBool True)
   \<and> HANDLERS_categoryId (values\<lparr>categoryId := Val (Num k)\<rparr>)
       (Some \<lparr>arg_id = Str (js_String (Val (Num k)))\<rparr>) = Inr (JBool True)
   \<and> HANDLERS_brandId (values\<lparr>brandId := Val (Num k)\<rparr>)
       (Some \<lparr>arg_id = Str (js_String (Val (Num k)))\<rparr>) = Inr (JBool True)
   \<and> HANDLERS_selectedItemId (values\<lparr>selectedItemId := Val (Num k)\<rparr>)
       (Some \<lparr>arg_id = Str (js_String (Val (Num k)))\<rparr>) = Inr (JBool True)
   \<and> HANDLERS_productId (values\<lparr>productId := Val (Num i)\<rparr>)
       (Some \<lparr>arg_id = Str (js_String (Val (Num j)))\<rparr>) = Inr (JBool (i = j))
   \<and> HANDLERS_categoryId (values\<lparr>categoryId := Val (Num i)\<rparr>)
       (Some \<lparr>arg_id = Str (js_String (Val (Num j)))\<rparr>) = Inr (JBool (i = j))
   \<and> HANDLERS_brandId (values\<lparr>brandId := Val (Num i)\<rparr>)
       (Some \<lparr>arg_id = Str (js_String (Val (Num j)))\<rparr>) = Inr (JBool (i = j))
   \<and> HANDLERS_selectedItemId (values\<lparr>selectedItemId := Val (Num i)\<rparr>)
       (Some \<lparr>arg_id = Str (js_String (Val (Num j)))\<rparr>) = Inr (JBool (i = j))"
proof -
  have strict: "specificationProperties values = Val ps \<and> (\<forall>q\<in>set ps. \<exists>k. Property_name q = Num k)
      \<longrightarrow> HANDLERS_specificationProperties values (Some \<lparr>arg_name = Str s, arg_value = v\<rparr>)
            = Inr (JBool False)"
    using specificationProperties_not_found [of "values" "Str s" v] by fastforce
  have strict': "specificationProperties values = Val ps \<and> (\<forall>q\<in>set ps. \<exists>r. Property_name q = Str r)
      \<longrightarrow> HANDLERS_specificationProperties values (Some \<lparr>arg_name = Num k, arg_value = v\<rparr>)
            = Inr (JBool False)"
    using specificationProperties_not_found [of "values" "Num k" v] by fastforce
  have coerced: "specificationProperties values = Val (pre @ p # post)
        \<and> (\<forall>q\<in>set pre. Property_name q \<noteq> n) \<and> Property_name p = n
      \<longrightarrow> HANDLERS_specificationProperties values (Some \<lparr>arg_name = n, arg_value = Val x\<rparr>)
            = Inr (JBool (Str (js_String (Val x)) \<in> set (Property_values p)))"
    using specificationProperties_found [of "values" pre p post n "Val x"] by simp
  have single: "HANDLERS_specificationProperties
       (values\<lparr>specificationProperties := Val [\<lparr>Property_name = Num k, Property_values = vs\<rparr>]\<rparr>)
       (Some \<lparr>arg_name = Str (js_String (Val (Num k))), arg_value = v\<rparr>) = Inr (JBool False)"
    by (simp add: HANDLERS_specificationProperties_def opt_find_def args_name_def)
  have digits: "HANDLERS_specificationProperties
       (values\<lparr>specificationProperties :=
          Val [\<lparr>Property_name = n, Property_values = [Str (js_String (Val (Num j)))]\<rparr>]\<rparr>)
       (Some \<lparr>arg_name = n, arg_value = Val (Num i)\<rparr>) = Inr (JBool (i = j))"
    by (simp add: HANDLERS_specificationProperties_def opt_find_def args_name_def args_value_def
        js_String_Num_eq_iff)
  have itself: "HANDLERS_specificationProperties
       (values\<lparr>specificationProperties := Val [\<lparr>Property_name = n, Property_values = [Num i]\<rparr>]\<rparr>)
       (Some \<lparr>arg_name = n, arg_value = Val (Num i)\<rparr>) = Inr (JBool False)"
    by (simp add: HANDLERS_specificationProperties_def opt_find_def args_name_def args_value_def)
  have ident: "HANDLERS_productId (values\<lparr>productId := Val a\<rparr>) (Some \<lparr>arg_id = b\<rparr>)
       = Inr (JBool (js_String (Val a) = js_String (Val b)))"
    "HANDLERS_categoryId (values\<lparr>categoryId := Val a\<rparr>) (Some \<lparr>arg_id = b\<rparr>)
       = Inr (JBool (js_String (Val a) = js_String (Val b)))"
    "HANDLERS_brandId (values\<lparr>brandId := Val a\<rparr>) (Some \<lparr>arg_id = b\<rparr>)
       = Inr (JBool (js_String (Val a) = js_String (Val b)))"
    "HANDLERS_selectedItemId (values\<lparr>selectedItemId := Val a\<rparr>) (Some \<lparr>arg_id = b\<rparr>)
       = Inr (JBool (js_String (Val a) = js_String (Val b)))"
    for a b
    by (simp_all add: HANDLERS_productId_def HANDLERS_categoryId_def HANDLERS_brandId_def
        HANDLERS_selectedItemId_def args_id_def)
  show ?thesis
    by (intro conjI strict strict' coerced single digits itself)
      (simp_all add: ident js_String_Num_eq_iff)
qed

theorem specificationProperties_strict_name_coerced_value_witness:
  "HANDLERS_specificationProperties
     (no_values\<lparr>specificationProperties :=
        Val [\<lparr>Property_name = Num (safe_of_int 7), Property_values = [Str ''5'']\<rparr>]\<rparr>)
     (Some \<lparr>arg_name = Str ''7'', arg_value = Undefined\<rparr>) = Inr (JBool False)
   \<and> HANDLERS_specificationProperties
     (no_values\<lparr>specificationProperties :=
        Val [\<lparr>Property_name = Num (safe_of_int 7), Property_values = [Str ''5'']\<rparr>]\<rparr>)
     (Some \<lparr>arg_name = Num (safe_of_int 7), arg_value = Val (Num (safe_of_int 5))\<rparr>)
       = Inr (JBool True)
   \<and> js_String (Val (Num (safe_of_int 7))) = ''7''"
proof -
  let ?p = "\<lparr>Property_name = Num (safe_of_int 7), Property_values = [Str ''5'']\<rparr>"
  have present: "specificationProperties (no_values\<lparr>specificationProperties := Val [?p]\<rparr>)
      = Val [?p]"
    by simp
  show ?thesis
    using present js_String_small
      specificationProperties_strict_name_coerced_value
        [of "no_values\<lparr>specificationProperties := Val [?p]\<rparr>" "[?p]" "''7''" Undefined
          "[]" ?p "[]" "Num (safe_of_int 7)" "Num (safe_of_int 5)"]
    by simp
qed


section \<open>Seller handlers\<close>

text \<open>
  C7. For values with a sellers list and a quantity \<open>q\<close>, \<open>hasMoreSellersThan\<close> returns
  true exactly when the number of sellers whose offer has \<open>AvailableQuantity > 0\<close> is
  strictly greater than \<open>q\<close>, and false otherwise.
\<close>

theorem hasMoreSellersThan_counts_available:
  assumes "sellers values = Val ss"
  shows "HANDLERS_hasMoreSellersThan values (Some \<lparr>quantity = q\<rparr>) =
           Inr (JBool (q < of_nat (length (filter (\<lambda>s. 0 < AvailableQuantity (commertialOffer s)) ss))))"
  using assms
  by (simp add: HANDLERS_hasMoreSellersThan_def opt_filter_def opt_length_def js_gt_def
      to_number_def args_quantity_def available_eq)

theorem hasMoreSellersThan_counts_available_witness:
  "sellers (no_values\<lparr>sellers := Val [offer ''a'' True 10 10 1, offer ''b'' False 10 10 0,
                                       offer ''c'' False 10 10 2, offer ''d'' False 10 10 7]\<rparr>)
     = Val [offer ''a'' True 10 10 1, offer ''b'' False 10 10 0,
            offer ''c'' False 10 10 2, offer ''d'' False 10 10 7]
   \<and> HANDLERS_hasMoreSellersThan
       (no_values\<lparr>sellers := Val [offer ''a'' True 10 10 1, offer ''b'' False 10 10 0,
                                  offer ''c'' False 10 10 2, offer ''d'' False 10 10 7]\<rparr>)
       (Some \<lparr>quantity = 2\<rparr>) = Inr (JBool True)
   \<and> HANDLERS_hasMoreSellersThan
       (no_values\<lparr>sellers := Val [offer ''a'' True 10 10 1, offer ''b'' False 10 10 0,
                                  offer ''c'' False 10 10 2, offer ''d'' False 10 10 7]\<rparr>)
       (Some \<lparr>quantity = 3\<rparr>) = Inr (JBool False)"
proof -
  have present: "sellers (no_values\<lparr>sellers := Val [offer ''a'' True 10 10 1, offer ''b'' False 10 10 0,
                                       offer ''c'' False 10 10 2, offer ''d'' False 10 10 7]\<rparr>)
     = Val [offer ''a'' True 10 10 1, offer ''b'' False 10 10 0,
            offer ''c'' False 10 10 2, offer ''d'' False 10 10 7]"
    by simp
  show ?thesis
    using hasMoreSellersThan_counts_available [OF present, of 2]
      hasMoreSellersThan_counts_available [OF present, of 3]
    by (simp add: offer_def)
qed

text \<open>Without a sellers list the comparison is against \<open>undefined\<close> and gives false.\<close>

lemma hasMoreSellersThan_absent:
  assumes "nullish (sellers values)"
  shows "HANDLERS_hasMoreSellersThan values args = Inr (JBool False)"
  using assms
  by (cases "sellers values")
    (simp_all add: HANDLERS_hasMoreSellersThan_def opt_filter_def opt_length_def js_gt_def
      to_number_def)

text \<open>
  C8. \<open>sellerId\<close> gives true exactly when some seller with \<open>AvailableQuantity > 0\<close> has its
  id among \<open>ids\<close>; when every seller whose id is among \<open>ids\<close> has \<open>AvailableQuantity \<le> 0\<close>
  the handler gives false.
\<close>

theorem sellerId_matches_available_seller:
  "((HANDLERS_sellerId values (Some \<lparr>ids = wanted\<rparr>) = Inr (JBool True))
      = (\<exists>ss s. sellers values = Val ss \<and> s \<in> set ss
           \<and> 0 < AvailableQuantity (commertialOffer s) \<and> sellerId s \<in> set wanted))
   \<and> (sellers values = Val ss
        \<and> (\<forall>s\<in>set ss. sellerId s \<in> set wanted \<longrightarrow> AvailableQuantity (commertialOffer s) \<le> 0)
      \<longrightarrow> HANDLERS_sellerId values (Some \<lparr>ids = wanted\<rparr>) = Inr (JBool False))"
proof -
  have iff: "(HANDLERS_sellerId values (Some \<lparr>ids = wanted\<rparr>) = Inr (JBool True))
      = (\<exists>ss s. sellers values = Val ss \<and> s \<in> set ss
           \<and> 0 < AvailableQuantity (commertialOffer s) \<and> sellerId s \<in> set wanted)"
    by (cases "sellers values")
      (auto simp: HANDLERS_sellerId_def opt_filter_def opt_some_def args_ids_includes_def
        js_Boolean_def available_def list_ex_iff)
  have none: "sellers values = Val ss
        \<and> (\<forall>s\<in>set ss. sellerId s \<in> set wanted \<longrightarrow> AvailableQuantity (commertialOffer s) \<le> 0)
      \<longrightarrow> HANDLERS_sellerId values (Some \<lparr>ids = wanted\<rparr>) = Inr (JBool False)"
    by (auto simp: HANDLERS_sellerId_def opt_filter_def opt_some_def args_ids_includes_def
        js_Boolean_def available_def list_ex_iff)
  from iff none show ?thesis by blast
qed

theorem sellerId_matches_available_seller_witness:
  "HANDLERS_sellerId
     (no_values\<lparr>sellers := Val [offer ''s1'' True 10 10 0, offer ''s2'' False 10 10 4]\<rparr>)
     (Some \<lparr>ids = [''s1'']\<rparr>) = Inr (JBool False)
   \<and> HANDLERS_sellerId
     (no_values\<lparr>sellers := Val [offer ''s1'' True 10 10 0, offer ''s2'' False 10 10 4]\<rparr>)
     (Some \<lparr>ids = [''s2'', ''s3'']\<rparr>) = Inr (JBool True)"
proof -
  have unavailable: "HANDLERS_sellerId
     (no_values\<lparr>sellers := Val [offer ''s1'' True 10 10 0, offer ''s2'' False 10 10 4]\<rparr>)
     (Some \<lparr>ids = [''s1'']\<rparr>) = Inr (JBool False)"
    using sellerId_matches_available_seller
      [of "no_values\<lparr>sellers := Val [offer ''s1'' True 10 10 0, offer ''s2'' False 10 10 4]\<rparr>"
        "[''s1'']" "[offer ''s1'' True 10 10 0, offer ''s2'' False 10 10 4]"]
    by (simp add: offer_def)
  have "\<exists>ss s. sellers (no_values\<lparr>sellers := Val [offer ''s1'' True 10 10 0, offer ''s2'' False 10 10 4]\<rparr>)
            = Val ss \<and> s \<in> set ss
          \<and> 0 < AvailableQuantity (commertialOffer s) \<and> sellerId s \<in> set [''s2'', ''s3'']"
    by (intro exI [of _ "[offer ''s1'' True 10 10 0, offer ''s2'' False 10 10 4]"]
        exI [of _ "offer ''s2'' False 10 10 4"]) (simp add: offer_def)
  then have available: "HANDLERS_sellerId
     (no_values\<lparr>sellers := Val [offer ''s1'' True 10 10 0, offer ''s2'' False 10 10 4]\<rparr>)
     (Some \<lparr>ids = [''s2'', ''s3'']\<rparr>) = Inr (JBool True)"
    using sellerId_matches_available_seller
      [of "no_values\<lparr>sellers := Val [offer ''s1'' True 10 10 0, offer ''s2'' False 10 10 4]\<rparr>"
        "[''s2'', ''s3'']" "[]"]
    by blast
  from unavailable available show ?thesis by blast
qed

lemma hasBestPrice_default:
  assumes "sellers values = Val (pre @ s # post)"
    and "\<forall>x\<in>set pre. \<not> sellerDefault x" and "sellerDefault s"
  shows "HANDLERS_hasBestPrice values args =
           Inr (JBool ((ListPrice (commertialOffer s) \<noteq> Price (commertialOffer s))
                       = args_expected args))"
  using assms by (simp add: HANDLERS_hasBestPrice_def opt_find_def find_first_match)

lemma hasBestPrice_fallback:
  assumes "sellers values = Val (s # rest)" and "\<forall>x\<in>set (s # rest). \<not> sellerDefault x"
  shows "HANDLERS_hasBestPrice values args =
           Inr (JBool ((ListPrice (commertialOffer s) \<noteq> Price (commertialOffer s))
                       = args_expected args))"
proof -
  have "find sellerDefault (s # rest) = None"
    using assms(2) by (simp add: find_None_iff)
  then show ?thesis
    using assms(1) by (simp add: HANDLERS_hasBestPrice_def opt_find_def index0_def)
qed

text \<open>
  C4. On a non-empty sellers list \<open>hasBestPrice\<close> looks at one seller \<open>s\<close>: the first seller
  marked default when there is one, the first seller of the list otherwise. It gives true
  exactly when \<open>ListPrice \<noteq> Price\<close> of that seller's offer equals the expected value, which
  is \<open>args.value\<close>, or true when the arguments or the value are omitted.
\<close>

theorem hasBestPrice_selects_and_compares:
  assumes "sellers values = Val ss" and "ss \<noteq> []"
  shows "\<exists>s. ((\<exists>pre post. ss = pre @ s # post \<and> (\<forall>x\<in>set pre. \<not> sellerDefault x) \<and> sellerDefault s)
              \<or> ((\<forall>x\<in>set ss. \<not> sellerDefault x) \<and> s = hd ss))
            \<and> HANDLERS_hasBestPrice values args =
                Inr (JBool ((ListPrice (commertialOffer s) \<noteq> Price (commertialOffer s))
                            = (case args of
                                 None \<Rightarrow> True
                               | Some a \<Rightarrow> (case expected_value a of None \<Rightarrow> True | Some v \<Rightarrow> v))))"
proof (cases "\<exists>x\<in>set ss. sellerDefault x")
  case True
  then obtain pre s post where
    split: "ss = pre @ s # post" "sellerDefault s" "\<forall>x\<in>set pre. \<not> sellerDefault x"
    using split_list_first_prop [of ss sellerDefault] by blast
  from hasBestPrice_default [of "values" pre s post args] assms(1) split
  have "HANDLERS_hasBestPrice values args =
          Inr (JBool ((ListPrice (commertialOffer s) \<noteq> Price (commertialOffer s))
                      = args_expected args))"
    by simp
  with split show ?thesis
    unfolding args_expected_def by blast
next
  case False
  from assms(2) obtain s rest where ss: "ss = s # rest"
    by (cases ss) auto
  from hasBestPrice_fallback [of "values" s rest args] assms(1) False ss
  have "HANDLERS_hasBestPrice values args =
          Inr (JBool ((ListPrice (commertialOffer s) \<noteq> Price (commertialOffer s))
                      = args_expected args))"
    by simp
  with False ss show ?thesis
    unfolding args_expected_def by auto
qed

theorem hasBestPrice_selects_and_compares_witness:
  "sellers (no_values\<lparr>sellers := Val [offer ''a'' False 100 100 1, offer ''b'' True 100 80 1]\<rparr>)
     = Val [offer ''a'' False 100 100 1, offer ''b'' True 100 80 1]
   \<and> [offer ''a'' False 100 100 1, offer ''b'' True 100 80 1] \<noteq> []
   \<and> HANDLERS_hasBestPrice
       (no_values\<lparr>sellers := Val [offer ''a'' False 100 100 1, offer ''b'' True 100 80 1]\<rparr>)
       None = Inr (JBool True)"
proof -
  let ?a = "offer ''a'' False 100 100 1" and ?b = "offer ''b'' True 100 80 1"
  have present: "sellers (no_values\<lparr>sellers := Val [?a, ?b]\<rparr>) = Val [?a, ?b]"
    and nonempty: "[?a, ?b] \<noteq> []"
    by simp_all
  have flags: "\<not> sellerDefault ?a" "sellerDefault ?b"
    by (simp_all add: offer_def)
  from hasBestPrice_selects_and_compares [OF present nonempty, of None]
  obtain s where
    chosen: "(\<exists>pre post. [?a, ?b] = pre @ s # post \<and> (\<forall>x\<in>set pre. \<not> sellerDefault x) \<and> sellerDefault s)
             \<or> ((\<forall>x\<in>set [?a, ?b]. \<not> sellerDefault x) \<and> s = hd [?a, ?b])"
    and result: "HANDLERS_hasBestPrice (no_values\<lparr>sellers := Val [?a, ?b]\<rparr>) None =
                   Inr (JBool (ListPrice (commertialOffer s) \<noteq> Price (commertialOffer s)))"
    by auto
  from chosen flags have "s = ?b"
    by (auto simp: Cons_eq_append_conv)
  with result have "HANDLERS_hasBestPrice (no_values\<lparr>sellers := Val [?a, ?b]\<rparr>) None = Inr (JBool True)"
    by (simp add: offer_def)
  with present nonempty show ?thesis by blast
qed

text \<open>
  C3 reads: on an empty sellers list \<open>hasBestPrice\<close> returns false rather than raising.
  The code raises: \<open>find\<close> gives \<open>undefined\<close>, so does \<open>values.sellers[0]\<close>, and
  destructuring \<open>commertialOffer\<close> out of \<open>undefined\<close> throws a \<open>TypeError\<close>, whatever
  the other fields and the arguments are.
\<close>

theorem hasBestPrice_empty_sellers_throws:
  "HANDLERS_hasBestPrice (values\<lparr>sellers := Val []\<rparr>) args = Inl TypeError"
  by (simp add: HANDLERS_hasBestPrice_def opt_find_def index0_def)


section \<open>Totality of the handlers\<close>

text \<open>
  Ten handlers return a boolean on every input; \<open>productClusters\<close>, \<open>categoryTree\<close> and
  \<open>isProductAvailable\<close> do so by wrapping their result in \<open>Boolean\<close>, which turns a
  missing collection into false.
\<close>

lemma boolean_handlers:
  "\<exists>b. HANDLERS_productId values idArgs = Inr (JBool b)"
  "\<exists>b. HANDLERS_categoryId values idArgs = Inr (JBool b)"
  "\<exists>b. HANDLERS_brandId values idArgs = Inr (JBool b)"
  "\<exists>b. HANDLERS_selectedItemId values idArgs = Inr (JBool b)"
  "\<exists>b. HANDLERS_areAllVariationsSelected values noArgs = Inr (JBool b)"
  "\<exists>b. HANDLERS_productClusters values idArgs = Inr (JBool b)"
  "\<exists>b. HANDLERS_categoryTree values idArgs = Inr (JBool b)"
  "\<exists>b. HANDLERS_specificationProperties values specArgs = Inr (JBool b)"
  "\<exists>b. HANDLERS_isProductAvailable values noArgs = Inr (JBool b)"
  "\<exists>b. HANDLERS_hasMoreSellersThan values quantityArgs = Inr (JBool b)"
  by (auto simp: HANDLERS_productId_def HANDLERS_categoryId_def HANDLERS_brandId_def
      HANDLERS_selectedItemId_def HANDLERS_areAllVariationsSelected_def
      HANDLERS_productClusters_def HANDLERS_categoryTree_def
      HANDLERS_specificationProperties_def HANDLERS_isProductAvailable_def
      HANDLERS_hasMoreSellersThan_def Let_def split: js.splits)

lemma wrapped_handlers_absent:
  "HANDLERS_productClusters (values\<lparr>productClusters := Undefined\<rparr>) idArgs = Inr (JBool False)"
  "HANDLERS_categoryTree (values\<lparr>categoryTree := Undefined\<rparr>) idArgs = Inr (JBool False)"
  "HANDLERS_isProductAvailable (values\<lparr>sellers := Undefined\<rparr>) noArgs = Inr (JBool False)"
  by (simp_all add: HANDLERS_productClusters_def HANDLERS_categoryTree_def
      HANDLERS_isProductAvailable_def opt_find_def opt_some_def truthy_obj_def js_Boolean_def)

text \<open>
  C2 reads: every handler is total and returns a boolean, false when a collection it
  queries is missing. The three remaining handlers break this:
  \<open>productClusterHighlights\<close> and \<open>sellerId\<close> hand back the \<open>undefined\<close> of the optional
  chain when their collection is missing, and \<open>hasBestPrice\<close> throws when the sellers
  list is missing or empty.
\<close>

theorem handlers_not_total:
  "HANDLERS_productClusterHighlights (values\<lparr>clusterHighlights := Undefined\<rparr>) idArgs = Inr JUndefined
   \<and> HANDLERS_sellerId (values\<lparr>sellers := Undefined\<rparr>) sellerArgs = Inr JUndefined
   \<and> HANDLERS_hasBestPrice (values\<lparr>sellers := Undefined\<rparr>) priceArgs = Inl TypeError
   \<and> HANDLERS_hasBestPrice (values\<lparr>sellers := Val []\<rparr>) priceArgs = Inl TypeError"
  by (simp add: HANDLERS_productClusterHighlights_def HANDLERS_sellerId_def
      HANDLERS_hasBestPrice_def opt_some_def opt_filter_def opt_find_def index0_def)

end
